theory Spec2Isabelle
  imports Complex_Main "HOL-Library.Multiset" "HOL-Library.Sublist"
begin

section \<open>Data model\<close>

text \<open>
  The element type of \<^verbatim>\<open>CommandMenuProps["icons"]\<close> (command-menu.tsx, lines 10-18):
  \<^verbatim>\<open>{ name: string, data: { categories: string[], aliases: string[], [key: string]: unknown } }\<close>.
  Both fields of \<^verbatim>\<open>data\<close> are declared non-optional arrays. The index signature (further
  unknown keys) is the extension slot every Isabelle record has; no function below reads it.
\<close>

record icon_data =
  categories :: "string list"
  aliases :: "string list"

record icon_entry =
  name :: string
  data :: icon_data

text \<open>
  The three string literals of line 88, \<^verbatim>\<open>"name"\<close>, \<^verbatim>\<open>"alias"\<close> and \<^verbatim>\<open>"category"\<close>,
  as an enumeration.
\<close>

datatype matched_field = Name | Alias | Category

text \<open>
  The object literal returned by the arrow function of lines 69-89:
  \<^verbatim>\<open>{ icon, score, matchedField }\<close>.

  A JavaScript number is a double. The finite doubles are real numbers, and the model
  computes with real numbers: a product is the exact product rounded to the nearest
  double, as the section on numbers below defines it. NaN and the infinities are not
  modelled, so \<^verbatim>\<open>fuzzySearch\<close> is taken to return finite numbers.
\<close>

record scored_icon =
  icon :: icon_entry
  score :: real
  matchedField :: matched_field

text \<open>
  \<^verbatim>\<open>fuzzySearch\<close> is imported from \<^verbatim>\<open>@/lib/utils\<close> (line 5) and is not part of the
  sources at hand: every function below takes it as its first parameter. It is called as
  \<^verbatim>\<open>fuzzySearch(text, query)\<close>.
\<close>

type_synonym fuzzy = "string \<Rightarrow> string \<Rightarrow> real"

section \<open>Numbers\<close>

text \<open>
  Rounding to the nearest integer, a tie going to the even one.
\<close>

definition round_half_even :: "real \<Rightarrow> int" where
  "round_half_even z =
     (let f = \<lfloor>z\<rfloor>; d = z - of_int f
      in if d < 1 / 2 then f else if d > 1 / 2 then f + 1 else if even f then f else f + 1)"

text \<open>
  The distance between neighbouring doubles around a positive number \<open>y\<close>: a double has
  53 significant bits, so between 1 and 2 the doubles are \<open>2 ^ 52\<close> steps of
  \<open>1 / 2 ^ 52\<close>, the step doubles with every doubling of \<open>y\<close> and halves with every
  halving, down to the subnormal numbers below \<open>1 / 2 ^ 1022\<close>, which all are multiples
  of \<open>1 / 2 ^ 1074\<close>.
\<close>

function ulp_of :: "real \<Rightarrow> real" where
  "ulp_of y =
     (if y < 1 / 2 ^ 1022 then 1 / 2 ^ 1074
      else if y < 1 then ulp_of (2 * y) / 2
      else if y < 2 then 1 / 2 ^ 52
      else ulp_of (y / 2) * 2)"
  by pat_completeness auto
termination
proof (relation "measure (\<lambda>y. 2 * nat \<lceil>1 / y\<rceil> + nat \<lceil>y\<rceil>)")
  show "wf (measure (\<lambda>y :: real. 2 * nat \<lceil>1 / y\<rceil> + nat \<lceil>y\<rceil>))"
    by simp
next
  fix y :: real
  assume "\<not> y < 1 / 2 ^ 1022" and small: "y < 1"
  moreover have "(0::real) < 1 / 2 ^ 1022" by simp
  ultimately have pos: "0 < y" by linarith
  have "1 < 1 / y" using pos small by simp
  then have "1 < \<lceil>1 / y\<rceil>" by (simp add: less_ceiling_iff)
  then have k: "2 \<le> \<lceil>1 / y\<rceil>" by simp
  have "1 / (2 * y) = (1 / y) / 2" by simp
  also have "\<dots> \<le> of_int \<lceil>1 / y\<rceil> / 2" by (simp add: divide_right_mono)
  also have "\<dots> \<le> of_int (\<lceil>1 / y\<rceil> - 1)" using k by simp
  finally have a: "\<lceil>1 / (2 * y)\<rceil> \<le> \<lceil>1 / y\<rceil> - 1" by (rule ceiling_le)
  have b: "\<lceil>2 * y\<rceil> \<le> 2" using small by (simp add: ceiling_le_iff)
  have c: "\<lceil>y\<rceil> = 1" using pos small by (simp add: ceiling_eq_iff)
  have "2 * nat \<lceil>1 / (2 * y)\<rceil> + nat \<lceil>2 * y\<rceil> < 2 * nat \<lceil>1 / y\<rceil> + nat \<lceil>y\<rceil>"
    using a b c k by simp linarith
  then show "(2 * y, y) \<in> measure (\<lambda>y. 2 * nat \<lceil>1 / y\<rceil> + nat \<lceil>y\<rceil>)"
    by simp
next
  fix y :: real
  assume "\<not> y < 1 / 2 ^ 1022" "\<not> y < 1" "\<not> y < 2"
  then have big: "2 \<le> y" by simp
  have a: "\<lceil>1 / (y / 2)\<rceil> = 1" using big by (simp add: ceiling_eq_iff)
  have b: "\<lceil>1 / y\<rceil> = 1" using big by (simp add: ceiling_eq_iff)
  have "y / 2 \<le> y - 1" using big by simp
  also have "\<dots> \<le> of_int (\<lceil>y\<rceil> - 1)" by simp
  finally have c: "\<lceil>y / 2\<rceil> \<le> \<lceil>y\<rceil> - 1" by (rule ceiling_le)
  have d: "2 \<le> \<lceil>y\<rceil>" using big by (simp add: le_ceiling_iff)
  have "2 * nat \<lceil>1 / (y / 2)\<rceil> + nat \<lceil>y / 2\<rceil> < 2 * nat \<lceil>1 / y\<rceil> + nat \<lceil>y\<rceil>"
    using c d unfolding a b by simp
  then show "(y / 2, y) \<in> measure (\<lambda>y. 2 * nat \<lceil>1 / y\<rceil> + nat \<lceil>y\<rceil>)"
    by simp
qed

declare ulp_of.simps [simp del]

text \<open>
  The double nearest to a real number, a tie going to the double with the even
  significand: the rounding of IEEE 754 arithmetic. A number beyond the largest double is
  rounded in the same way and not to an infinity. A numeric literal such as \<^verbatim>\<open>1.8\<close>
  denotes the double nearest to it, \<open>round_double 1.8\<close>; the literal \<^verbatim>\<open>2.0\<close> is a double
  as it stands.
\<close>

definition round_double :: "real \<Rightarrow> real" where
  "round_double x =
     (if x = 0 then 0
      else let u = ulp_of \<bar>x\<bar> in of_int (round_half_even (x / u)) * u)"

text \<open>The operator \<^verbatim>\<open>*\<close> on numbers: the exact product, rounded.\<close>

definition js_times :: "real \<Rightarrow> real \<Rightarrow> real" where
  "js_times x y = round_double (x * y)"

section \<open>Library functions of the language\<close>

text \<open>
  \<^verbatim>\<open>Math.max(x, ...rest)\<close> with at least one argument: a scan from the left that keeps
  the larger value. Both call sites pass at least one argument: line 86 passes three, and
  the spreads of lines 76 and 82 are guarded by \<^verbatim>\<open>length > 0\<close>. A spread passes each
  element as an argument of its own; the bound an engine puts on the number of arguments
  is not modelled.
\<close>

fun math_max :: "real \<Rightarrow> real list \<Rightarrow> real" where
  "math_max x [] = x"
| "math_max x (y # ys) = math_max (if y > x then y else x) ys"

text \<open>
  \<^verbatim>\<open>Array.prototype.slice(start, end)\<close> for two non-negative integer arguments: the
  elements at the indices from \<open>start\<close> up to, not including, \<open>end\<close>, as far as they
  exist.
\<close>

definition js_slice :: "nat \<Rightarrow> nat \<Rightarrow> 'a list \<Rightarrow> 'a list" where
  "js_slice start fin xs = take (fin - start) (drop start xs)"

text \<open>
  \<^verbatim>\<open>Array.prototype.sort(comparefn)\<close>. The language standard requires the sort to be
  stable, and for a consistent comparator the sorted order is then unique, so any stable
  sort computes it; here, insertion from the right. An element moves behind another one
  only where \<open>comparefn\<close> is positive on the pair.
\<close>

fun js_insert :: "('a \<Rightarrow> 'a \<Rightarrow> real) \<Rightarrow> 'a \<Rightarrow> 'a list \<Rightarrow> 'a list" where
  "js_insert comparefn x [] = [x]"
| "js_insert comparefn x (y # ys) =
     (if comparefn x y > 0 then y # js_insert comparefn x ys else x # y # ys)"

fun js_sort :: "('a \<Rightarrow> 'a \<Rightarrow> real) \<Rightarrow> 'a list \<Rightarrow> 'a list" where
  "js_sort comparefn [] = []"
| "js_sort comparefn (x # xs) = js_insert comparefn x (js_sort comparefn xs)"

section \<open>The matcher: getFilteredIcons\<close>

text \<open>Line 71: \<^verbatim>\<open>fuzzySearch(icon.name, query) * 2.0\<close>.\<close>

definition nameScore :: "fuzzy \<Rightarrow> icon_entry \<Rightarrow> string \<Rightarrow> real" where
  "nameScore fuzzySearch ic query = js_times (fuzzySearch (name ic) query) 2.0"

text \<open>
  Lines 74-77. The guard \<^verbatim>\<open>icon.data.aliases && icon.data.aliases.length > 0\<close> holds
  exactly when the mapped array has a first element (an array is always truthy), which is
  the second case below.
\<close>

definition aliasScore :: "fuzzy \<Rightarrow> icon_entry \<Rightarrow> string \<Rightarrow> real" where
  "aliasScore fuzzySearch ic query =
     (case map (\<lambda>a. fuzzySearch a query) (aliases (data ic)) of
        [] \<Rightarrow> 0
      | s # ss \<Rightarrow> js_times (math_max s ss) (round_double 1.8))"

text \<open>Lines 80-83: as for the aliases, without a weight.\<close>

definition categoryScore :: "fuzzy \<Rightarrow> icon_entry \<Rightarrow> string \<Rightarrow> real" where
  "categoryScore fuzzySearch ic query =
     (case map (\<lambda>c. fuzzySearch c query) (categories (data ic)) of
        [] \<Rightarrow> 0
      | s # ss \<Rightarrow> math_max s ss)"

text \<open>The arrow function of lines 69-89, applied to one icon.\<close>

definition scoredIcon :: "fuzzy \<Rightarrow> string \<Rightarrow> icon_entry \<Rightarrow> scored_icon" where
  "scoredIcon fuzzySearch query ic =
     (let ns = nameScore fuzzySearch ic query;
          als = aliasScore fuzzySearch ic query;
          cs = categoryScore fuzzySearch ic query;
          sc = math_max ns [als, cs]
      in \<lparr>icon = ic, score = sc,
          matchedField = (if sc = ns then Name else if sc = als then Alias else Category)\<rparr>)"

text \<open>Line 69: \<^verbatim>\<open>const scoredIcons = iconList.map(...)\<close>.\<close>

definition scoredIcons :: "fuzzy \<Rightarrow> icon_entry list \<Rightarrow> string \<Rightarrow> scored_icon list" where
  "scoredIcons fuzzySearch iconList query = map (scoredIcon fuzzySearch query) iconList"

text \<open>
  Line 94: the comparator \<^verbatim>\<open>(a, b) => b.score - a.score\<close>. The sort reads the sign of
  the difference only, and the rounded difference of two doubles has the sign of the exact
  one, so the difference is left exact.
\<close>

definition compareScore :: "scored_icon \<Rightarrow> scored_icon \<Rightarrow> real" where
  "compareScore a b = score b - score a"

text \<open>
  Lines 62-97, on the contents of the arrays. \<^verbatim>\<open>!query\<close> holds for the empty string
  only. The literal \<^verbatim>\<open>0.3\<close> of line 93 is the double just below 3/10, and no double lies
  between the two: a double exceeds the one exactly when it exceeds the other, and the
  test is written with 3/10.
\<close>

definition getFilteredIcons :: "fuzzy \<Rightarrow> icon_entry list \<Rightarrow> string \<Rightarrow> icon_entry list" where
  "getFilteredIcons fuzzySearch iconList query =
     (if query = [] then js_slice 0 8 iconList
      else map icon
             (js_slice 0 20
               (js_sort compareScore
                 (filter (\<lambda>item. score item > 0.3)
                   (scoredIcons fuzzySearch iconList query)))))"

text \<open>The score the matcher gives one icon, read off the scored record.\<close>

abbreviation iconScore :: "fuzzy \<Rightarrow> string \<Rightarrow> icon_entry \<Rightarrow> real" where
  "iconScore fuzzySearch query ic \<equiv> score (scoredIcon fuzzySearch query ic)"

section \<open>The matcher on a store of arrays\<close>

text \<open>
  Arrays are mutable objects: \<^verbatim>\<open>sort\<close> reorders its receiver in place and returns it,
  while \<^verbatim>\<open>map\<close>, \<^verbatim>\<open>filter\<close> and \<^verbatim>\<open>slice\<close> build a new array and leave the receiver
  alone. To follow which array each call writes, arrays live in a heap: a reference is an
  address, \<open>cells\<close> gives the contents at an address, and \<open>next_ref\<close> is the first
  address not yet handed out. The store has one heap for the arrays of icons and one for
  the arrays of scored records, as the types of the program keep the two apart. The icons
  themselves and the short-lived arrays of numbers passed to \<^verbatim>\<open>Math.max\<close> are never
  written to and stay values.
\<close>

record 'a heap =
  cells :: "nat \<Rightarrow> 'a list"
  next_ref :: nat

definition heap_new :: "'a list \<Rightarrow> 'a heap \<Rightarrow> nat \<times> 'a heap" where
  "heap_new xs h =
     (next_ref h, \<lparr>cells = (cells h)(next_ref h := xs), next_ref = Suc (next_ref h)\<rparr>)"

definition heap_put :: "nat \<Rightarrow> 'a list \<Rightarrow> 'a heap \<Rightarrow> 'a heap" where
  "heap_put r xs h = \<lparr>cells = (cells h)(r := xs), next_ref = next_ref h\<rparr>"

record store =
  icon_arrays :: "icon_entry heap"
  scored_arrays :: "scored_icon heap"

text \<open>\<^verbatim>\<open>slice\<close> on an array of icons (line 65): a new array of icons.\<close>

definition icons_slice :: "nat \<Rightarrow> nat \<Rightarrow> nat \<Rightarrow> store \<Rightarrow> nat \<times> store" where
  "icons_slice r start fin st =
     (let (r', h) = heap_new (js_slice start fin (cells (icon_arrays st) r)) (icon_arrays st)
      in (r', st\<lparr>icon_arrays := h\<rparr>))"

text \<open>\<^verbatim>\<open>map\<close> from an array of icons (line 69): a new array of scored records.\<close>

definition icons_map :: "(icon_entry \<Rightarrow> scored_icon) \<Rightarrow> nat \<Rightarrow> store \<Rightarrow> nat \<times> store" where
  "icons_map f r st =
     (let (r', h) = heap_new (map f (cells (icon_arrays st) r)) (scored_arrays st)
      in (r', st\<lparr>scored_arrays := h\<rparr>))"

text \<open>\<^verbatim>\<open>filter\<close> on an array of scored records (line 93): a new array.\<close>

definition scored_filter :: "(scored_icon \<Rightarrow> bool) \<Rightarrow> nat \<Rightarrow> store \<Rightarrow> nat \<times> store" where
  "scored_filter p r st =
     (let (r', h) = heap_new (filter p (cells (scored_arrays st) r)) (scored_arrays st)
      in (r', st\<lparr>scored_arrays := h\<rparr>))"

text \<open>
  \<^verbatim>\<open>sort\<close> on an array of scored records (line 94): the receiver is overwritten with its
  sorted contents and its own reference is returned.
\<close>

definition scored_sort ::
  "(scored_icon \<Rightarrow> scored_icon \<Rightarrow> real) \<Rightarrow> nat \<Rightarrow> store \<Rightarrow> nat \<times> store" where
  "scored_sort comparefn r st =
     (r, st\<lparr>scored_arrays :=
              heap_put r (js_sort comparefn (cells (scored_arrays st) r)) (scored_arrays st)\<rparr>)"

text \<open>\<^verbatim>\<open>slice\<close> on an array of scored records (line 95): a new array.\<close>

definition scored_slice :: "nat \<Rightarrow> nat \<Rightarrow> nat \<Rightarrow> store \<Rightarrow> nat \<times> store" where
  "scored_slice r start fin st =
     (let (r', h) = heap_new (js_slice start fin (cells (scored_arrays st) r)) (scored_arrays st)
      in (r', st\<lparr>scored_arrays := h\<rparr>))"

text \<open>\<^verbatim>\<open>map\<close> from an array of scored records (line 96): a new array of icons.\<close>

definition scored_map :: "(scored_icon \<Rightarrow> icon_entry) \<Rightarrow> nat \<Rightarrow> store \<Rightarrow> nat \<times> store" where
  "scored_map f r st =
     (let (r', h) = heap_new (map f (cells (scored_arrays st) r)) (icon_arrays st)
      in (r', st\<lparr>icon_arrays := h\<rparr>))"

text \<open>
  Lines 62-97 once more, now with \<open>iconList\<close> a reference into the store: the function
  returns the reference of its result and the store it leaves behind.
\<close>

definition getFilteredIcons_st :: "fuzzy \<Rightarrow> nat \<Rightarrow> string \<Rightarrow> store \<Rightarrow> nat \<times> store" where
  "getFilteredIcons_st fuzzySearch iconList query st =
     (if query = [] then icons_slice iconList 0 8 st
      else
        let (scored, st1) = icons_map (scoredIcon fuzzySearch query) iconList st;
            (kept, st2) = scored_filter (\<lambda>item. score item > 0.3) scored st1;
            (sorted, st3) = scored_sort compareScore kept st2;
            (cut, st4) = scored_slice sorted 0 20 st3
        in scored_map icon cut st4)"

text \<open>The contents of the icon array behind a reference.\<close>

definition icons_at :: "store \<Rightarrow> nat \<Rightarrow> icon_entry list" where
  "icons_at st r = cells (icon_arrays st) r"

text \<open>
  Two stores agree on everything that was allocated in the first: the same contents at
  every address below its two allocation marks.
\<close>

definition unchanged_below :: "store \<Rightarrow> store \<Rightarrow> bool" where
  "unchanged_below st st' =
     ((\<forall>r < next_ref (icon_arrays st). cells (icon_arrays st') r = cells (icon_arrays st) r) \<and>
      (\<forall>r < next_ref (scored_arrays st).
          cells (scored_arrays st') r = cells (scored_arrays st) r))"

section \<open>Sample data\<close>

text \<open>A similarity function with values in the unit interval, and a few icons.\<close>

definition sample_fuzzy :: fuzzy where
  "sample_fuzzy t query = (if t = query then 1 else if prefix query t then 1 / 2 else 0)"

definition sample_icon :: "string \<Rightarrow> string list \<Rightarrow> string list \<Rightarrow> icon_entry" where
  "sample_icon n als cs = \<lparr>name = n, data = \<lparr>categories = cs, aliases = als\<rparr>\<rparr>"

definition sample_icons :: "icon_entry list" where
  "sample_icons =
     [sample_icon ''gitlab'' [''git''] [''dev''],
      sample_icon ''github'' [''git'', ''gh''] [''dev''],
      sample_icon ''grafana'' [] [''monitoring''],
      sample_icon ''git'' [] [''dev'', ''vcs'']]"

text \<open>
  A similarity function and icons whose weighted scores meet only after rounding: the
  doubles nearest to 0.7875 and 0.9, and 0.875 and 0.5, which are doubles.
\<close>

definition tie_fuzzy :: fuzzy where
  "tie_fuzzy t query =
     (if t = ''alpha'' then round_double 0.7875
      else if t = ''beta'' then 0.875
      else if t = ''gamma'' then 0.5
      else if t = ''delta'' then round_double 0.9
      else 0)"

definition tie_icons :: "icon_entry list" where
  "tie_icons = [sample_icon ''alpha'' [] [], sample_icon ''c'' [''beta''] []]"

text \<open>Twenty-one icons of one category, with the names \<open>x\<close>, \<open>xx\<close>, \<open>xxx\<close>, ...\<close>

definition numbered_icon :: "nat \<Rightarrow> icon_entry" where
  "numbered_icon n = sample_icon (replicate (Suc n) CHR ''x'') [] [''tool'']"

definition many_icons :: "icon_entry list" where
  "many_icons = map numbered_icon [0..<21]"

text \<open>
  A store that holds the sample icons at address 0, a second array of icons at address 1
  and one array of scored records.
\<close>

definition sample_store :: store where
  "sample_store =
     \<lparr>icon_arrays = \<lparr>cells = (\<lambda>_. [])(0 := sample_icons, 1 := [sample_icon ''git'' [] []]),
                      next_ref = 2\<rparr>,
      scored_arrays = \<lparr>cells = (\<lambda>_. [])(0 := [scoredIcon sample_fuzzy ''git'' (sample_icon ''git'' [] [])]),
                        next_ref = 1\<rparr>\<rparr>"

text \<open>A second store, with the sample icons at address 3 among other arrays.\<close>

definition other_store :: store where
  "other_store =
     \<lparr>icon_arrays = \<lparr>cells = (\<lambda>_. [sample_icon ''x'' [] []])(3 := sample_icons),
                      next_ref = 5\<rparr>,
      scored_arrays = \<lparr>cells = (\<lambda>_. []), next_ref = 0\<rparr>\<rparr>"

section \<open>Properties of the rounding\<close>

lemma ulp_of_pos: "0 < ulp_of y"
proof (induction y rule: ulp_of.induct)
  case (1 y)
  show ?case by (subst ulp_of.simps) (use 1 in auto)
qed

lemma two_div_inv_pow: "u = 1 / 2 ^ k \<Longrightarrow> 2 / u = (2::real) ^ Suc k"
  by simp

lemma two_div_inv_pow_two: "u = 1 / 2 ^ k * 2 \<Longrightarrow> 2 / u = (2::real) ^ k"
  by simp

lemma ulp_of_below_two: "y < 2 \<Longrightarrow> \<exists>n::nat. 2 / ulp_of y = 2 ^ n"
proof (induction y rule: ulp_of.induct)
  case (1 y)
  consider (tiny) "y < 1 / 2 ^ 1022" | (small) "\<not> y < 1 / 2 ^ 1022" "y < 1"
    | (unit) "\<not> y < 1 / 2 ^ 1022" "\<not> y < 1"
    by blast
  then show ?case
  proof cases
    case tiny
    then have "ulp_of y = 1 / 2 ^ 1074" by (subst ulp_of.simps) simp
    then have "2 / ulp_of y = 2 ^ Suc 1074" by (rule two_div_inv_pow)
    then show ?thesis by blast
  next
    case small
    then have u: "ulp_of y = ulp_of (2 * y) / 2" by (subst ulp_of.simps) simp
    from small "1.prems" "1.IH"(1) obtain n :: nat where "2 / ulp_of (2 * y) = 2 ^ n"
      by auto
    then have "2 / ulp_of y = 2 ^ Suc n" unfolding u by simp
    then show ?thesis by blast
  next
    case unit
    then have "ulp_of y = 1 / 2 ^ 52" using "1.prems" by (subst ulp_of.simps) simp
    then have "2 / ulp_of y = 2 ^ Suc 52" by (rule two_div_inv_pow)
    then show ?thesis by blast
  qed
qed

lemma ulp_of_two: "2 / ulp_of 2 = 2 ^ 52"
proof -
  have "ulp_of 1 = 1 / 2 ^ 52" by (subst ulp_of.simps) simp
  then have "ulp_of 2 = 1 / 2 ^ 52 * 2" by (subst ulp_of.simps) simp
  then show ?thesis by (rule two_div_inv_pow_two)
qed

lemma ulp_of_upto_two:
  assumes "y \<le> 2"
  shows "\<exists>n::nat. 2 / ulp_of y = 2 ^ n"
proof (cases "y = 2")
  case True
  with ulp_of_two show ?thesis by blast
next
  case False
  with assms have "y < 2" by simp
  then show ?thesis by (rule ulp_of_below_two)
qed

lemma round_half_even_le: "z \<le> of_int n \<Longrightarrow> round_half_even z \<le> n"
proof -
  assume a: "z \<le> of_int n"
  then have f: "\<lfloor>z\<rfloor> \<le> n" by (simp add: floor_le_iff) 
  show ?thesis
  proof (cases "\<lfloor>z\<rfloor> = n")
    case True
    then have "z = of_int n" using a of_int_floor_le [of z] by simp
    then show ?thesis by (simp add: round_half_even_def)
  next
    case False
    then have "\<lfloor>z\<rfloor> + 1 \<le> n" using f by simp
    then show ?thesis by (simp add: round_half_even_def Let_def)
  qed
qed

lemma round_half_even_nonneg: "0 \<le> z \<Longrightarrow> 0 \<le> round_half_even z"
  by (simp add: round_half_even_def Let_def)

lemma round_half_even_error: "\<bar>of_int (round_half_even z) - z\<bar> \<le> 1 / 2"
proof -
  have "of_int \<lfloor>z\<rfloor> \<le> z" "z < of_int \<lfloor>z\<rfloor> + 1" by linarith+
  then show ?thesis by (auto simp: round_half_even_def Let_def)
qed

lemma round_double_bounds:
  assumes "0 \<le> y" "y \<le> 2"
  shows "0 \<le> round_double y \<and> round_double y \<le> 2"
proof (cases "y = 0")
  case True
  then show ?thesis by (simp add: round_double_def)
next
  case False
  let ?u = "ulp_of \<bar>y\<bar>"
  have u: "0 < ?u" by (rule ulp_of_pos)
  have r: "round_double y = of_int (round_half_even (y / ?u)) * ?u"
    using False by (simp add: round_double_def Let_def)
  have "\<bar>y\<bar> \<le> 2" using assms by simp
  then obtain n :: nat where n: "2 / ?u = 2 ^ n"
    using ulp_of_upto_two by blast
  have "y / ?u \<le> 2 / ?u" using assms u by (simp add: divide_right_mono)
  also have "\<dots> = of_int (2 ^ n)" using n by simp
  finally have "round_half_even (y / ?u) \<le> 2 ^ n" by (rule round_half_even_le)
  then have "of_int (round_half_even (y / ?u)) \<le> (2 ^ n :: real)"
    by (metis of_int_le_iff of_int_numeral of_int_power)
  then have "of_int (round_half_even (y / ?u)) * ?u \<le> 2 ^ n * ?u"
    using u by (simp add: mult_right_mono)
  also have "2 ^ n * ?u = 2" using n u by (simp add: field_simps)
  finally have hi: "round_double y \<le> 2" unfolding r .
  have "0 \<le> y / ?u" using assms u by simp
  then have "0 \<le> round_half_even (y / ?u)" by (rule round_half_even_nonneg)
  then have lo: "0 \<le> round_double y" unfolding r using u by simp
  from lo hi show ?thesis by blast
qed

lemma round_double_error: "\<bar>round_double x - x\<bar> \<le> ulp_of \<bar>x\<bar> / 2"
proof (cases "x = 0")
  case True
  then show ?thesis using ulp_of_pos [of 0] by (simp add: round_double_def)
next
  case False
  let ?u = "ulp_of \<bar>x\<bar>"
  have u: "0 < ?u" by (rule ulp_of_pos)
  have "round_double x - x = (of_int (round_half_even (x / ?u)) - x / ?u) * ?u"
    using False u by (simp add: round_double_def Let_def field_simps)
  then have "\<bar>round_double x - x\<bar> = \<bar>of_int (round_half_even (x / ?u)) - x / ?u\<bar> * ?u"
    using u by (simp add: abs_mult)
  also have "\<dots> \<le> 1 / 2 * ?u"
    using round_half_even_error [of "x / ?u"] u by (intro mult_right_mono) simp_all
  finally show ?thesis by simp
qed

lemma js_times_error: "\<bar>js_times x y - x * y\<bar> \<le> ulp_of \<bar>x * y\<bar> / 2"
  unfolding js_times_def by (rule round_double_error)

lemma js_times_bounds:
  "0 \<le> x * y \<Longrightarrow> x * y \<le> 2 \<Longrightarrow> 0 \<le> js_times x y \<and> js_times x y \<le> 2"
  unfolding js_times_def by (rule round_double_bounds)

text \<open>
  Rules that compute the rounding, and the scores of the sample data, at given numbers.
  The equation of \<open>ulp_of\<close> is among them: it unfolds as long as its argument is a
  numeral.
\<close>

lemmas round_eval = round_double_def js_times_def round_half_even_def Let_def ulp_of.simps

lemmas score_eval = scoredIcons_def scoredIcon_def nameScore_def aliasScore_def
  categoryScore_def sample_fuzzy_def tie_fuzzy_def sample_icon_def sample_icons_def
  tie_icons_def

lemmas run_eval = getFilteredIcons_def js_slice_def compareScore_def

text \<open>
  The doubles that the literals of the program denote, as fractions with a power of two
  below. 3/10 lies between the double for \<^verbatim>\<open>0.3\<close> and the next double.
\<close>

lemma literal_doubles:
  "round_double 2.0 = 2"
  "round_double 1.8 = 8106479329266893 / 2 ^ 52"
  "round_double 0.3 = 5404319552844595 / 2 ^ 54"
  by (simp_all add: round_eval)

lemma threshold_between_doubles:
  "round_double 0.3 < 3 / 10 \<and> 3 / 10 < round_double 0.3 + ulp_of 0.3"
  by (simp add: round_eval)

section \<open>Properties of the library functions\<close>

lemma math_max_fold: "math_max x ys = fold max ys x"
  by (induction ys arbitrary: x) (simp_all add: max_def)

lemma math_max_Max: "math_max x ys = Max (set (x # ys))"
  using Max.set_eq_fold [of x ys] by (simp add: math_max_fold)

lemma length_js_slice: "length (js_slice 0 n xs) = min n (length xs)"
  by (simp add: js_slice_def min.commute)

lemma js_slice_0: "js_slice 0 n xs = take n xs"
  by (simp add: js_slice_def)

text \<open>
  With the comparator of line 94 the sort is the library's stable sort on the key
  \<open>- score\<close>.
\<close>

lemma js_insert_insort: "js_insert compareScore x ys = insort_key (\<lambda>i. - score i) x ys"
  by (induction ys) (auto simp: compareScore_def)

lemma js_sort_sort_key: "js_sort compareScore xs = sort_key (\<lambda>i. - score i) xs"
  by (induction xs) (simp_all add: js_insert_insort)

section \<open>The result in terms of the icons\<close>

lemma icon_scoredIcon: "icon (scoredIcon f q ic) = ic"
  by (simp add: scoredIcon_def Let_def)

lemma insort_key_map: "insort_key k (g x) (map g ys) = map g (insort_key (\<lambda>y. k (g y)) x ys)"
  by (induction ys) simp_all

lemma sort_key_map: "sort_key k (map g xs) = map g (sort_key (\<lambda>y. k (g y)) xs)"
  by (induction xs) (simp_all add: insort_key_map)

lemma getFilteredIcons_nonempty:
  assumes "q \<noteq> []"
  shows "getFilteredIcons f xs q =
    take 20 (sort_key (\<lambda>ic. - iconScore f q ic) (filter (\<lambda>ic. iconScore f q ic > 0.3) xs))"
proof -
  let ?g = "scoredIcon f q"
  have "filter (\<lambda>item. score item > 0.3) (map ?g xs) = map ?g (filter (\<lambda>ic. iconScore f q ic > 0.3) xs)"
    by (simp add: filter_map comp_def)
  then have "js_sort compareScore (filter (\<lambda>item. score item > 0.3) (scoredIcons f xs q))
     = map ?g (sort_key (\<lambda>ic. - iconScore f q ic) (filter (\<lambda>ic. iconScore f q ic > 0.3) xs))"
    by (simp add: scoredIcons_def js_sort_sort_key sort_key_map)
  then show ?thesis using assms
    by (simp add: getFilteredIcons_def js_slice_0 take_map comp_def icon_scoredIcon)
qed

lemma getFilteredIcons_empty: "getFilteredIcons f xs [] = take 8 xs"
  by (simp add: getFilteredIcons_def js_slice_0)

lemma sorted_neg_key: "sorted (map (\<lambda>x. - k x) ys) \<Longrightarrow> sorted_wrt (\<ge>) (map (k :: 'a \<Rightarrow> real) ys)"
  by (induction ys) auto

lemma mset_take_subset: "mset (take n xs) \<subseteq># mset xs"
  by (metis append_take_drop_id mset_append mset_subset_eq_add_left)

lemma mset_getFilteredIcons: "mset (getFilteredIcons f xs q) \<subseteq># mset xs"
proof (cases "q = []")
  case True
  then show ?thesis by (simp add: getFilteredIcons_empty mset_take_subset)
next
  case False
  let ?ys = "filter (\<lambda>ic. iconScore f q ic > 0.3) xs"
  have "mset (take 20 (sort_key (\<lambda>ic. - iconScore f q ic) ?ys)) \<subseteq># mset (sort_key (\<lambda>ic. - iconScore f q ic) ?ys)"
    by (rule mset_take_subset)
  also have "\<dots> = mset ?ys" by simp
  also have "\<dots> \<subseteq># mset xs" by simp
  finally show ?thesis using False by (simp add: getFilteredIcons_nonempty)
qed

lemma distinct_getFilteredIcons: "distinct xs \<Longrightarrow> distinct (getFilteredIcons f xs q)"
  by (cases "q = []") (simp_all add: getFilteredIcons_empty getFilteredIcons_nonempty)

lemma sorted_getFilteredIcons:
  assumes "q \<noteq> []"
  shows "sorted_wrt (\<ge>) (map (iconScore f q) (getFilteredIcons f xs q))"
proof -
  let ?k = "\<lambda>ic. - iconScore f q ic"
  let ?ys = "filter (\<lambda>ic. iconScore f q ic > 0.3) xs"
  have "sorted (map ?k (sort_key ?k ?ys))" by (rule sorted_sort_key)
  then have "sorted_wrt (\<ge>) (map (iconScore f q) (sort_key ?k ?ys))"
    by (rule sorted_neg_key)
  then have "sorted_wrt (\<ge>) (take 20 (map (iconScore f q) (sort_key ?k ?ys)))"
    by (rule sorted_wrt_take)
  then show ?thesis using assms by (simp add: getFilteredIcons_nonempty take_map)
qed

lemma stable_getFilteredIcons:
  assumes "q \<noteq> []"
  shows "prefix (filter (\<lambda>ic. iconScore f q ic = s) (getFilteredIcons f xs q))
                (filter (\<lambda>ic. iconScore f q ic = s) xs)"
proof -
  let ?k = "\<lambda>ic. - iconScore f q ic"
  let ?Q = "\<lambda>ic. iconScore f q ic = s"
  let ?ys = "filter (\<lambda>ic. iconScore f q ic > 0.3) xs"
  have Q: "?Q = (\<lambda>ic. ?k ic = - s)" by auto
  have "prefix (filter ?Q (take 20 (sort_key ?k ?ys))) (filter ?Q (sort_key ?k ?ys))"
    by (rule filter_mono_prefix) (rule take_is_prefix)
  also have "filter ?Q (sort_key ?k ?ys) = filter ?Q ?ys"
    unfolding Q by (rule sort_key_stable)
  also have "\<dots> = (if s > 0.3 then filter ?Q xs else [])"
    by (induction xs) auto
  finally have "prefix (filter ?Q (take 20 (sort_key ?k ?ys))) (filter ?Q xs)"
    by (simp split: if_splits)
  then show ?thesis using assms by (simp add: getFilteredIcons_nonempty)
qed

section \<open>The run on the store and the function on the contents\<close>

lemma getFilteredIcons_st_result:
  "icons_at (snd (getFilteredIcons_st f r q st)) (fst (getFilteredIcons_st f r q st))
     = getFilteredIcons f (icons_at st r) q"
  by (simp add: getFilteredIcons_st_def getFilteredIcons_def icons_at_def icons_slice_def
      icons_map_def scored_filter_def scored_sort_def scored_slice_def scored_map_def
      heap_new_def heap_put_def scoredIcons_def Let_def split_def)

lemma getFilteredIcons_st_unchanged: "unchanged_below st (snd (getFilteredIcons_st f r q st))"
  by (simp add: getFilteredIcons_st_def unchanged_below_def icons_slice_def
      icons_map_def scored_filter_def scored_sort_def scored_slice_def scored_map_def
      heap_new_def heap_put_def Let_def split_def)

lemma getFilteredIcons_st_fresh: "fst (getFilteredIcons_st f r q st) = next_ref (icon_arrays st)"
  by (simp add: getFilteredIcons_st_def icons_slice_def
      icons_map_def scored_filter_def scored_sort_def scored_slice_def scored_map_def
      heap_new_def heap_put_def Let_def split_def)

lemma getFilteredIcons_st_empty_scored: "scored_arrays (snd (getFilteredIcons_st f r [] st)) = scored_arrays st"
  by (simp add: getFilteredIcons_st_def icons_slice_def heap_new_def Let_def split_def)

section \<open>The score of a record\<close>

lemma spread_max: "xs \<noteq> [] \<Longrightarrow> (case map g xs of [] \<Rightarrow> 0 | s # ss \<Rightarrow> c (math_max s ss)) = c (Max (g ` set xs))"
  by (cases xs) (simp_all add: math_max_Max)

text \<open>
  Claim C1. The score the matcher computes for a record is the largest of three numbers:
  the similarity of the name to the query times 2; the largest similarity of an alias to
  the query times 1.8, or 0 for a record without aliases; the largest similarity of a
  category to the query, or 0 for a record without categories. It holds for every query,
  the non-empty ones the matcher scores among them. The products are the products of
  doubles, \<open>js_times\<close>, with the double that the literal 1.8 denotes; each is the exact
  product up to half the distance between neighbouring doubles.
\<close>

theorem scoredIcons_score:
  "map score (scoredIcons fuzzySearch iconList query) =
     map (\<lambda>ic. max (js_times (fuzzySearch (name ic) query) 2)
               (max (if aliases (data ic) = [] then 0
                     else js_times (Max ((\<lambda>a. fuzzySearch a query) ` set (aliases (data ic))))
                            (round_double 1.8))
                    (if categories (data ic) = [] then 0
                     else Max ((\<lambda>c. fuzzySearch c query) ` set (categories (data ic))))))
         iconList
   \<and> (\<forall>x y. \<bar>js_times x y - x * y\<bar> \<le> ulp_of \<bar>x * y\<bar> / 2)"
proof -
  have a: "aliasScore fuzzySearch ic query =
      (if aliases (data ic) = [] then 0
       else js_times (Max ((\<lambda>a. fuzzySearch a query) ` set (aliases (data ic))))
              (round_double 1.8))" for ic
    unfolding aliasScore_def
    using spread_max [where xs = "aliases (data ic)" and g = "\<lambda>a. fuzzySearch a query"
        and c = "\<lambda>m. js_times m (round_double 1.8)"]
    by simp
  have c: "categoryScore fuzzySearch ic query =
      (if categories (data ic) = [] then 0
       else Max ((\<lambda>c. fuzzySearch c query) ` set (categories (data ic))))" for ic
    unfolding categoryScore_def
    using spread_max [where xs = "categories (data ic)" and g = "\<lambda>c. fuzzySearch c query"
        and c = "\<lambda>m. m"]
    by simp
  have "iconScore fuzzySearch query ic =
      max (nameScore fuzzySearch ic query)
        (max (aliasScore fuzzySearch ic query) (categoryScore fuzzySearch ic query))" for ic
    by (simp add: scoredIcon_def Let_def max_def)
  then have "map score (scoredIcons fuzzySearch iconList query) =
     map (\<lambda>ic. max (js_times (fuzzySearch (name ic) query) 2)
               (max (if aliases (data ic) = [] then 0
                     else js_times (Max ((\<lambda>a. fuzzySearch a query) ` set (aliases (data ic))))
                            (round_double 1.8))
                    (if categories (data ic) = [] then 0
                     else Max ((\<lambda>c. fuzzySearch c query) ` set (categories (data ic))))))
         iconList"
    by (simp add: scoredIcons_def nameScore_def a c)
  then show ?thesis using js_times_error by blast
qed

text \<open>
  The scores of the four sample icons for the query \<open>git\<close>: an alias that matches
  exactly scores the double that 1.8 denotes. The scores of the two icons whose products
  round to the same double.
\<close>

theorem scoredIcons_score_witness:
  "map score (scoredIcons sample_fuzzy sample_icons ''git'') =
     map (\<lambda>ic. max (js_times (sample_fuzzy (name ic) ''git'') 2)
               (max (if aliases (data ic) = [] then 0
                     else js_times (Max ((\<lambda>a. sample_fuzzy a ''git'') ` set (aliases (data ic))))
                            (round_double 1.8))
                    (if categories (data ic) = [] then 0
                     else Max ((\<lambda>c. sample_fuzzy c ''git'') ` set (categories (data ic))))))
         sample_icons \<and>
   map score (scoredIcons sample_fuzzy sample_icons ''git'') =
     [8106479329266893 / 4503599627370496, 8106479329266893 / 4503599627370496, 0, 2] \<and>
   map score (scoredIcons tie_fuzzy tie_icons ''q'') =
     [7093169413108531 / 4503599627370496, 7093169413108531 / 4503599627370496]"
proof -
  have v: "map score (scoredIcons sample_fuzzy sample_icons ''git'') =
     [8106479329266893 / 4503599627370496, 8106479329266893 / 4503599627370496, 0, 2]"
    by (simp add: round_eval score_eval)
  have w: "map score (scoredIcons tie_fuzzy tie_icons ''q'') =
     [7093169413108531 / 4503599627370496, 7093169413108531 / 4503599627370496]"
    by (simp add: round_eval score_eval)
  from scoredIcons_score [of sample_fuzzy sample_icons "''git''"] v w
  show ?thesis by blast
qed

section \<open>Order of the result\<close>

text \<open>
  Claim C2. For a non-empty query the scores of the result, read from left to right, never
  increase; and for every score \<open>s\<close> the records of the result with that score are, in
  this order, the first ones among the records of the input with that score: ties keep the
  order of the input. The sort loses no record: the result has as many records as pass
  the threshold, up to twenty.
\<close>

theorem getFilteredIcons_sorted_stable:
  assumes "query \<noteq> []"
  shows "sorted_wrt (\<ge>) (map (iconScore fuzzySearch query) (getFilteredIcons fuzzySearch iconList query))
    \<and> (\<forall>s. prefix (filter (\<lambda>ic. iconScore fuzzySearch query ic = s) (getFilteredIcons fuzzySearch iconList query))
                   (filter (\<lambda>ic. iconScore fuzzySearch query ic = s) iconList))
    \<and> length (getFilteredIcons fuzzySearch iconList query)
         = min 20 (length (filter (\<lambda>ic. iconScore fuzzySearch query ic > 0.3) iconList))"
proof -
  have "length (getFilteredIcons fuzzySearch iconList query)
      = min 20 (length (filter (\<lambda>ic. iconScore fuzzySearch query ic > 0.3) iconList))"
    using assms by (simp add: getFilteredIcons_nonempty min.commute)
  with assms show ?thesis
    using sorted_getFilteredIcons [of query fuzzySearch iconList]
      stable_getFilteredIcons [of query fuzzySearch _ iconList]
    by blast
qed

text \<open>
  The sample icons and the query \<open>git\<close>: two icons tie at the double that 1.8 denotes
  and keep their order. The two icons whose scores meet after rounding only: the result
  has them in the order of the input.
\<close>

theorem getFilteredIcons_sorted_stable_witness:
  "''git'' \<noteq> [] \<and>
   sorted_wrt (\<ge>) (map (iconScore sample_fuzzy ''git'')
     (getFilteredIcons sample_fuzzy sample_icons ''git'')) \<and>
   prefix (filter (\<lambda>ic. iconScore sample_fuzzy ''git'' ic = round_double 1.8)
            (getFilteredIcons sample_fuzzy sample_icons ''git''))
          (filter (\<lambda>ic. iconScore sample_fuzzy ''git'' ic = round_double 1.8) sample_icons) \<and>
   sorted_wrt (\<ge>) (map (iconScore tie_fuzzy ''q'') (getFilteredIcons tie_fuzzy tie_icons ''q'')) \<and>
   prefix (filter (\<lambda>ic. iconScore tie_fuzzy ''q'' ic = 7093169413108531 / 4503599627370496)
            (getFilteredIcons tie_fuzzy tie_icons ''q''))
          (filter (\<lambda>ic. iconScore tie_fuzzy ''q'' ic = 7093169413108531 / 4503599627370496)
            tie_icons) \<and>
   getFilteredIcons tie_fuzzy tie_icons ''q'' = tie_icons \<and>
   getFilteredIcons sample_fuzzy sample_icons ''git'' =
     [sample_icon ''git'' [] [''dev'', ''vcs''],
      sample_icon ''gitlab'' [''git''] [''dev''],
      sample_icon ''github'' [''git'', ''gh''] [''dev'']]"
proof -
  have h: "''git'' \<noteq> []" by simp
  have k: "''q'' \<noteq> []" by simp
  have r: "getFilteredIcons tie_fuzzy tie_icons ''q'' = tie_icons"
    by (simp add: round_eval score_eval run_eval)
  have t: "getFilteredIcons sample_fuzzy sample_icons ''git'' =
     [sample_icon ''git'' [] [''dev'', ''vcs''],
      sample_icon ''gitlab'' [''git''] [''dev''],
      sample_icon ''github'' [''git'', ''gh''] [''dev'']]"
    by (simp add: round_eval score_eval run_eval)
  from h r t getFilteredIcons_sorted_stable
    [where query = "''git''" and fuzzySearch = sample_fuzzy and iconList = sample_icons, OF h]
    getFilteredIcons_sorted_stable
    [where query = "''q''" and fuzzySearch = tie_fuzzy and iconList = tie_icons, OF k]
  show ?thesis by blast
qed

section \<open>The threshold\<close>

text \<open>
  Claim C3 as stated, that a record is in the result exactly when its score exceeds 0.3,
  fails where more than twenty records pass the threshold: of the twenty-one sample icons
  with the score 1 for the query \<open>tool\<close>, the last one is cut off by the slice of
  line 95.
\<close>

theorem getFilteredIcons_threshold_counterexample:
  "''tool'' \<noteq> [] \<and> numbered_icon 20 \<in> set many_icons \<and>
   iconScore sample_fuzzy ''tool'' (numbered_icon 20) > 0.3 \<and>
   numbered_icon 20 \<notin> set (getFilteredIcons sample_fuzzy many_icons ''tool'')"
  by code_simp

text \<open>
  Claim C3, amended. For a non-empty query every record of the result is a record of the
  input whose score exceeds 0.3; the result has as many records as pass the threshold, up
  to twenty; and where at most twenty records of the input pass the threshold, the records
  of the result are exactly those.
\<close>

theorem getFilteredIcons_threshold:
  assumes "query \<noteq> []"
  shows "set (getFilteredIcons fuzzySearch iconList query)
           \<subseteq> {ic \<in> set iconList. iconScore fuzzySearch query ic > 0.3}
    \<and> length (getFilteredIcons fuzzySearch iconList query)
         = min 20 (length (filter (\<lambda>ic. iconScore fuzzySearch query ic > 0.3) iconList))
    \<and> (length (filter (\<lambda>ic. iconScore fuzzySearch query ic > 0.3) iconList) \<le> 20 \<longrightarrow>
         set (getFilteredIcons fuzzySearch iconList query)
           = {ic \<in> set iconList. iconScore fuzzySearch query ic > 0.3})"
proof -
  let ?k = "\<lambda>ic. - iconScore fuzzySearch query ic"
  let ?ys = "filter (\<lambda>ic. iconScore fuzzySearch query ic > 0.3) iconList"
  have r: "getFilteredIcons fuzzySearch iconList query = take 20 (sort_key ?k ?ys)"
    using assms by (rule getFilteredIcons_nonempty)
  have "set (take 20 (sort_key ?k ?ys)) \<subseteq> set (sort_key ?k ?ys)"
    by (rule set_take_subset)
  then have 1: "set (getFilteredIcons fuzzySearch iconList query)
      \<subseteq> {ic \<in> set iconList. iconScore fuzzySearch query ic > 0.3}"
    unfolding r by simp
  have 2: "length (getFilteredIcons fuzzySearch iconList query) = min 20 (length ?ys)"
    unfolding r by (simp add: min.commute)
  have 3: "set (getFilteredIcons fuzzySearch iconList query)
      = {ic \<in> set iconList. iconScore fuzzySearch query ic > 0.3}" if "length ?ys \<le> 20"
    unfolding r using that by simp
  from 1 2 3 show ?thesis by blast
qed

text \<open>Three of the four sample icons pass the threshold for the query \<open>git\<close>.\<close>

theorem getFilteredIcons_threshold_witness:
  "''git'' \<noteq> [] \<and>
   length (filter (\<lambda>ic. iconScore sample_fuzzy ''git'' ic > 0.3) sample_icons) \<le> 20 \<and>
   length (getFilteredIcons sample_fuzzy sample_icons ''git'') = 3 \<and>
   set (getFilteredIcons sample_fuzzy sample_icons ''git'')
     = {ic \<in> set sample_icons. iconScore sample_fuzzy ''git'' ic > 0.3}"
proof -
  have n: "length (filter (\<lambda>ic. iconScore sample_fuzzy ''git'' ic > 0.3) sample_icons) = 3"
    by (simp add: round_eval score_eval)
  show ?thesis
    using getFilteredIcons_threshold
      [where query = "''git''" and fuzzySearch = sample_fuzzy and iconList = sample_icons] n
    by simp
qed

section \<open>Size of the result\<close>

text \<open>
  Claim C4. The result never has more than twenty records, and never more than eight when
  the query is empty.
\<close>

theorem getFilteredIcons_length:
  "length (getFilteredIcons fuzzySearch iconList query) \<le> 20 \<and>
   (query = [] \<longrightarrow> length (getFilteredIcons fuzzySearch iconList query) \<le> 8)"
  by (auto simp: getFilteredIcons_def length_js_slice)

text \<open>Twenty-one icons that all match, for a query and for the empty query.\<close>

theorem getFilteredIcons_length_witness:
  "length (getFilteredIcons sample_fuzzy many_icons ''tool'') \<le> 20 \<and>
   length (getFilteredIcons sample_fuzzy many_icons []) \<le> 8"
  using getFilteredIcons_length [of sample_fuzzy many_icons "''tool''"]
    getFilteredIcons_length [of sample_fuzzy many_icons "[]"]
  by simp

section \<open>The empty query\<close>

text \<open>
  Claim C5. For the empty query the result is the first eight records of the input in their
  order, all of them when there are fewer, whatever the similarity function is; run on a
  store, the call creates that array and leaves the heap of scored records as it was: no
  record is scored.
\<close>

theorem getFilteredIcons_empty_query:
  "getFilteredIcons fuzzySearch iconList [] = take 8 iconList \<and>
   length (getFilteredIcons fuzzySearch iconList []) = min 8 (length iconList) \<and>
   icons_at (snd (getFilteredIcons_st fuzzySearch r [] st))
            (fst (getFilteredIcons_st fuzzySearch r [] st)) = take 8 (icons_at st r) \<and>
   scored_arrays (snd (getFilteredIcons_st fuzzySearch r [] st)) = scored_arrays st"
  by (simp add: getFilteredIcons_st_result getFilteredIcons_st_empty_scored
      getFilteredIcons_empty min.commute)

text \<open>
  The first eight of the twenty-one icons; the single record of the specification's
  example; and the sample store.
\<close>

theorem getFilteredIcons_empty_query_witness:
  "getFilteredIcons sample_fuzzy many_icons [] = map numbered_icon [0..<8] \<and>
   getFilteredIcons sample_fuzzy [sample_icon ''github'' [''git''] [''dev'']] []
     = [sample_icon ''github'' [''git''] [''dev'']] \<and>
   scored_arrays (snd (getFilteredIcons_st sample_fuzzy 0 [] sample_store))
     = scored_arrays sample_store"
  using getFilteredIcons_empty_query [of sample_fuzzy many_icons 0 sample_store]
    getFilteredIcons_empty_query [of sample_fuzzy "[sample_icon ''github'' [''git''] [''dev'']]" 0 sample_store]
  by (simp add: many_icons_def take_map)

section \<open>Range of the scores\<close>

lemma math_max_bounds:
  "lo \<le> x \<Longrightarrow> x \<le> hi \<Longrightarrow> \<forall>y \<in> set ys. lo \<le> y \<and> y \<le> hi \<Longrightarrow>
   lo \<le> math_max x ys \<and> math_max x ys \<le> hi"
  by (induction ys arbitrary: x) simp_all

lemma nameScore_bounds:
  assumes "\<forall>t q. 0 \<le> f t q \<and> f t q \<le> 1"
  shows "0 \<le> nameScore f ic query \<and> nameScore f ic query \<le> 2"
  using assms [rule_format, of "name ic" query]
  unfolding nameScore_def by (intro js_times_bounds) simp_all

lemma aliasScore_bounds:
  assumes "\<forall>t q. 0 \<le> f t q \<and> f t q \<le> 1"
  shows "0 \<le> aliasScore f ic query \<and> aliasScore f ic query \<le> 2"
proof (cases "aliases (data ic)")
  case Nil
  then show ?thesis by (simp add: aliasScore_def)
next
  case (Cons a as)
  let ?m = "math_max (f a query) (map (\<lambda>a. f a query) as)"
  have m: "0 \<le> ?m \<and> ?m \<le> 1"
    using assms by (intro math_max_bounds) simp_all
  have w: "0 \<le> round_double 1.8 \<and> round_double 1.8 \<le> 2"
    by (rule round_double_bounds) simp_all
  have "?m * round_double 1.8 \<le> 1 * 2"
    using m w by (intro mult_mono) simp_all
  then have "0 \<le> js_times ?m (round_double 1.8) \<and> js_times ?m (round_double 1.8) \<le> 2"
    using m w by (intro js_times_bounds) simp_all
  then show ?thesis using Cons by (simp add: aliasScore_def)
qed

lemma categoryScore_bounds:
  assumes "\<forall>t q. 0 \<le> f t q \<and> f t q \<le> 1"
  shows "0 \<le> categoryScore f ic query \<and> categoryScore f ic query \<le> 1"
proof (cases "categories (data ic)")
  case Nil
  then show ?thesis by (simp add: categoryScore_def)
next
  case (Cons c cs)
  have "0 \<le> math_max (f c query) (map (\<lambda>c. f c query) cs)
      \<and> math_max (f c query) (map (\<lambda>c. f c query) cs) \<le> 1"
    using assms by (intro math_max_bounds) simp_all
  then show ?thesis using Cons by (simp add: categoryScore_def)
qed

lemma iconScore_max:
  "iconScore f q ic = max (nameScore f ic q) (max (aliasScore f ic q) (categoryScore f ic q))"
  by (simp add: scoredIcon_def Let_def max_def)

lemma sample_fuzzy_unit: "\<forall>t q. 0 \<le> sample_fuzzy t q \<and> sample_fuzzy t q \<le> 1"
  by (simp add: sample_fuzzy_def)

text \<open>
  Claim C6. If the similarity function only returns values between 0 and 1, then the score
  of every record, for every query, lies between 0 and 2.
\<close>

theorem iconScore_bounds:
  assumes "\<forall>t q. 0 \<le> fuzzySearch t q \<and> fuzzySearch t q \<le> 1"
  shows "0 \<le> iconScore fuzzySearch query ic \<and> iconScore fuzzySearch query ic \<le> 2"
  using nameScore_bounds [OF assms, of ic query] aliasScore_bounds [OF assms, of ic query]
    categoryScore_bounds [OF assms, of ic query]
  unfolding iconScore_max by linarith

text \<open>
  The sample similarity function stays in the unit interval; an exact match of the name
  reaches the upper bound.
\<close>

theorem iconScore_bounds_witness:
  "0 \<le> iconScore sample_fuzzy ''git'' (sample_icon ''git'' [] [''dev'', ''vcs'']) \<and>
   iconScore sample_fuzzy ''git'' (sample_icon ''git'' [] [''dev'', ''vcs'']) \<le> 2 \<and>
   iconScore sample_fuzzy ''git'' (sample_icon ''git'' [] [''dev'', ''vcs'']) = 2"
proof -
  have v: "iconScore sample_fuzzy ''git'' (sample_icon ''git'' [] [''dev'', ''vcs'']) = 2"
    by (simp add: round_eval score_eval)
  from iconScore_bounds [OF sample_fuzzy_unit, of "''git''" "sample_icon ''git'' [] [''dev'', ''vcs'']"] v
  show ?thesis by blast
qed

section \<open>The matched field\<close>

text \<open>
  Claim C7. The matched field is Name if the name's score equals the record's score,
  otherwise Alias if the aliases' score equals it, otherwise Category; and the score of the
  field it names is the score of the record.
\<close>

theorem matchedField_first:
  "matchedField (scoredIcon fuzzySearch query ic) =
     (if nameScore fuzzySearch ic query = iconScore fuzzySearch query ic then Name
      else if aliasScore fuzzySearch ic query = iconScore fuzzySearch query ic then Alias
      else Category)
   \<and> (case matchedField (scoredIcon fuzzySearch query ic) of
         Name \<Rightarrow> nameScore fuzzySearch ic query
       | Alias \<Rightarrow> aliasScore fuzzySearch ic query
       | Category \<Rightarrow> categoryScore fuzzySearch ic query) = iconScore fuzzySearch query ic"
  by (auto simp: scoredIcon_def Let_def)

text \<open>
  The query \<open>git\<close> matches an alias of the second sample icon exactly and its name only
  in part: Alias. A record whose three fields all equal the query ties at every field,
  and the name is taken. Two ties that exist after rounding only: the alias at 0.5 and the
  category at the double nearest 0.9, Alias; the name at the double nearest 0.7875 and the
  alias at 0.875, Name.
\<close>

theorem matchedField_first_witness:
  "matchedField (scoredIcon sample_fuzzy ''git'' (sample_icon ''github'' [''git'', ''gh''] [''dev''])) = Alias \<and>
   aliasScore sample_fuzzy (sample_icon ''github'' [''git'', ''gh''] [''dev'']) ''git'' =
     iconScore sample_fuzzy ''git'' (sample_icon ''github'' [''git'', ''gh''] [''dev'']) \<and>
   matchedField (scoredIcon sample_fuzzy ''dev'' (sample_icon ''dev'' [''dev''] [''dev''])) = Name \<and>
   matchedField (scoredIcon tie_fuzzy ''q'' (sample_icon ''n'' [''gamma''] [''delta''])) = Alias \<and>
   aliasScore tie_fuzzy (sample_icon ''n'' [''gamma''] [''delta'']) ''q'' =
     categoryScore tie_fuzzy (sample_icon ''n'' [''gamma''] [''delta'']) ''q'' \<and>
   matchedField (scoredIcon tie_fuzzy ''q'' (sample_icon ''alpha'' [''beta''] [])) = Name \<and>
   nameScore tie_fuzzy (sample_icon ''alpha'' [''beta''] []) ''q'' =
     aliasScore tie_fuzzy (sample_icon ''alpha'' [''beta''] []) ''q''"
proof -
  have a: "matchedField (scoredIcon sample_fuzzy ''git''
      (sample_icon ''github'' [''git'', ''gh''] [''dev''])) = Alias"
    by (simp add: round_eval score_eval)
  have b: "matchedField (scoredIcon sample_fuzzy ''dev'' (sample_icon ''dev'' [''dev''] [''dev''])) = Name"
    by (simp add: round_eval score_eval)
  have c: "matchedField (scoredIcon tie_fuzzy ''q'' (sample_icon ''n'' [''gamma''] [''delta''])) = Alias"
    by (simp add: round_eval score_eval)
  have d: "aliasScore tie_fuzzy (sample_icon ''n'' [''gamma''] [''delta'']) ''q'' =
     categoryScore tie_fuzzy (sample_icon ''n'' [''gamma''] [''delta'']) ''q''"
    by (simp add: round_eval score_eval)
  have e: "matchedField (scoredIcon tie_fuzzy ''q'' (sample_icon ''alpha'' [''beta''] [])) = Name"
    by (simp add: round_eval score_eval)
  have f: "nameScore tie_fuzzy (sample_icon ''alpha'' [''beta''] []) ''q'' =
     aliasScore tie_fuzzy (sample_icon ''alpha'' [''beta''] []) ''q''"
    by (simp add: round_eval score_eval)
  from matchedField_first
    [of sample_fuzzy "''git''" "sample_icon ''github'' [''git'', ''gh''] [''dev'']"] a
  have "aliasScore sample_fuzzy (sample_icon ''github'' [''git'', ''gh''] [''dev'']) ''git'' =
     iconScore sample_fuzzy ''git'' (sample_icon ''github'' [''git'', ''gh''] [''dev''])"
    by simp
  with a b c d e f show ?thesis by blast
qed

section \<open>Nothing to return\<close>

text \<open>
  Claim C8. The matcher has no failure: it is a total function to lists of records. For an
  empty input it returns the empty list, whatever the query; and for a non-empty query that
  no record matches with a score above 0.3 it returns the empty list.
\<close>

theorem getFilteredIcons_no_match:
  "getFilteredIcons fuzzySearch [] query = [] \<and>
   (query \<noteq> [] \<and> (\<forall>ic \<in> set iconList. iconScore fuzzySearch query ic \<le> 0.3) \<longrightarrow>
      getFilteredIcons fuzzySearch iconList query = [])"
proof -
  have "getFilteredIcons fuzzySearch [] query = []"
    by (simp add: getFilteredIcons_def js_slice_def scoredIcons_def)
  moreover have "getFilteredIcons fuzzySearch iconList query = []"
    if "query \<noteq> []" "\<forall>ic \<in> set iconList. iconScore fuzzySearch query ic \<le> 0.3"
  proof -
    have "filter (\<lambda>ic. iconScore fuzzySearch query ic > 0.3) iconList = []"
      using that(2) by (auto simp: filter_empty_conv)
    then show ?thesis using that(1) by (simp add: getFilteredIcons_nonempty)
  qed
  ultimately show ?thesis by blast
qed

text \<open>
  The empty input, for a query and for the empty query, and the sample icons for a query
  that is similar to none of their fields.
\<close>

theorem getFilteredIcons_no_match_witness:
  "getFilteredIcons sample_fuzzy [] ''git'' = [] \<and>
   getFilteredIcons sample_fuzzy [] [] = [] \<and>
   getFilteredIcons sample_fuzzy sample_icons ''zzz-nomatch'' = []"
proof -
  have "map (iconScore sample_fuzzy ''zzz-nomatch'') sample_icons = [0, 0, 0, 0]"
    by (simp add: round_eval score_eval)
  then have h: "\<forall>ic \<in> set sample_icons. iconScore sample_fuzzy ''zzz-nomatch'' ic \<le> 0.3"
    by (simp add: sample_icons_def)
  from getFilteredIcons_no_match [of sample_fuzzy "''git''" sample_icons]
    getFilteredIcons_no_match [of sample_fuzzy "[]" sample_icons]
    getFilteredIcons_no_match [of sample_fuzzy "''zzz-nomatch''" sample_icons] h
  show ?thesis by simp
qed

section \<open>Runs on the store\<close>

lemma getFilteredIcons_st_keeps_input:
  assumes "r < next_ref (icon_arrays st)"
  shows "icons_at (snd (getFilteredIcons_st f r q st)) r = icons_at st r"
  using getFilteredIcons_st_unchanged [of st f r q] assms
  by (simp add: unchanged_below_def icons_at_def)

text \<open>
  Claim C9. Two runs on input arrays with the same contents, with the same query and the
  same similarity function, return arrays with the same contents, whatever else the two
  stores hold and wherever the arrays are; each run leaves every array that existed before
  it as it was; and a second run on the same array, in the store the first run left
  behind, returns the contents the first run returned.
\<close>

theorem getFilteredIcons_st_deterministic:
  assumes "icons_at st1 r1 = icons_at st2 r2"
  shows "icons_at (snd (getFilteredIcons_st fuzzySearch r1 query st1))
                  (fst (getFilteredIcons_st fuzzySearch r1 query st1))
       = icons_at (snd (getFilteredIcons_st fuzzySearch r2 query st2))
                  (fst (getFilteredIcons_st fuzzySearch r2 query st2))
    \<and> unchanged_below st1 (snd (getFilteredIcons_st fuzzySearch r1 query st1))
    \<and> unchanged_below st2 (snd (getFilteredIcons_st fuzzySearch r2 query st2))
    \<and> (r1 < next_ref (icon_arrays st1) \<longrightarrow>
         icons_at (snd (getFilteredIcons_st fuzzySearch r1 query
                          (snd (getFilteredIcons_st fuzzySearch r1 query st1))))
                  (fst (getFilteredIcons_st fuzzySearch r1 query
                          (snd (getFilteredIcons_st fuzzySearch r1 query st1))))
       = icons_at (snd (getFilteredIcons_st fuzzySearch r1 query st1))
                  (fst (getFilteredIcons_st fuzzySearch r1 query st1)))"
  using assms
  by (simp add: getFilteredIcons_st_result getFilteredIcons_st_unchanged
      getFilteredIcons_st_keeps_input)

text \<open>
  The sample icons at address 0 of one store and at address 3 of another, and the run
  repeated on the first.
\<close>

theorem getFilteredIcons_st_deterministic_witness:
  "icons_at sample_store 0 = icons_at other_store 3 \<and>
   0 < next_ref (icon_arrays sample_store) \<and>
   icons_at (snd (getFilteredIcons_st sample_fuzzy 0 ''git'' sample_store))
            (fst (getFilteredIcons_st sample_fuzzy 0 ''git'' sample_store))
     = icons_at (snd (getFilteredIcons_st sample_fuzzy 3 ''git'' other_store))
                (fst (getFilteredIcons_st sample_fuzzy 3 ''git'' other_store)) \<and>
   unchanged_below sample_store (snd (getFilteredIcons_st sample_fuzzy 0 ''git'' sample_store)) \<and>
   unchanged_below other_store (snd (getFilteredIcons_st sample_fuzzy 3 ''git'' other_store)) \<and>
   icons_at (snd (getFilteredIcons_st sample_fuzzy 0 ''git''
                    (snd (getFilteredIcons_st sample_fuzzy 0 ''git'' sample_store))))
            (fst (getFilteredIcons_st sample_fuzzy 0 ''git''
                    (snd (getFilteredIcons_st sample_fuzzy 0 ''git'' sample_store))))
     = icons_at (snd (getFilteredIcons_st sample_fuzzy 0 ''git'' sample_store))
                (fst (getFilteredIcons_st sample_fuzzy 0 ''git'' sample_store))"
proof -
  have h: "icons_at sample_store 0 = icons_at other_store 3"
    by (simp add: icons_at_def sample_store_def other_store_def)
  have a: "0 < next_ref (icon_arrays sample_store)"
    by (simp add: sample_store_def)
  from h a getFilteredIcons_st_deterministic [OF h, of sample_fuzzy "''git''"]
  show ?thesis by blast
qed

text \<open>
  Claim C10. For an input array that exists in the store: every record of the result is a
  record of the input, and occurs in the result at most as often as in the input, hence at
  most once where the records of the input are distinct; the input array has the contents
  it had; the result is an array of its own, not the input array; and every other array
  that existed before the call is unchanged as well.
\<close>

theorem getFilteredIcons_st_frame:
  assumes "r < next_ref (icon_arrays st)"
  shows "set (icons_at (snd (getFilteredIcons_st fuzzySearch r query st))
                       (fst (getFilteredIcons_st fuzzySearch r query st)))
           \<subseteq> set (icons_at st r)
    \<and> mset (icons_at (snd (getFilteredIcons_st fuzzySearch r query st))
                      (fst (getFilteredIcons_st fuzzySearch r query st)))
           \<subseteq># mset (icons_at st r)
    \<and> (distinct (icons_at st r) \<longrightarrow>
         distinct (icons_at (snd (getFilteredIcons_st fuzzySearch r query st))
                            (fst (getFilteredIcons_st fuzzySearch r query st))))
    \<and> icons_at (snd (getFilteredIcons_st fuzzySearch r query st)) r = icons_at st r
    \<and> fst (getFilteredIcons_st fuzzySearch r query st) \<noteq> r
    \<and> unchanged_below st (snd (getFilteredIcons_st fuzzySearch r query st))"
proof -
  let ?res = "getFilteredIcons_st fuzzySearch r query st"
  have m: "mset (icons_at (snd ?res) (fst ?res)) \<subseteq># mset (icons_at st r)"
    by (simp add: getFilteredIcons_st_result mset_getFilteredIcons)
  then have s: "set (icons_at (snd ?res) (fst ?res)) \<subseteq> set (icons_at st r)"
    by (rule set_mset_mono [of "mset _" "mset _", simplified])
  have d: "distinct (icons_at st r) \<longrightarrow> distinct (icons_at (snd ?res) (fst ?res))"
    by (simp add: getFilteredIcons_st_result distinct_getFilteredIcons)
  have u: "unchanged_below st (snd ?res)"
    by (rule getFilteredIcons_st_unchanged)
  have k: "icons_at (snd ?res) r = icons_at st r"
    using assms by (rule getFilteredIcons_st_keeps_input)
  have f: "fst ?res \<noteq> r"
    using assms by (simp add: getFilteredIcons_st_fresh)
  from s m d k f u show ?thesis by blast
qed

text \<open>The sample store and the query \<open>git\<close>.\<close>

theorem getFilteredIcons_st_frame_witness:
  "0 < next_ref (icon_arrays sample_store) \<and> distinct (icons_at sample_store 0) \<and>
   set (icons_at (snd (getFilteredIcons_st sample_fuzzy 0 ''git'' sample_store))
                 (fst (getFilteredIcons_st sample_fuzzy 0 ''git'' sample_store)))
     \<subseteq> set (icons_at sample_store 0) \<and>
   mset (icons_at (snd (getFilteredIcons_st sample_fuzzy 0 ''git'' sample_store))
                  (fst (getFilteredIcons_st sample_fuzzy 0 ''git'' sample_store)))
     \<subseteq># mset (icons_at sample_store 0) \<and>
   distinct (icons_at (snd (getFilteredIcons_st sample_fuzzy 0 ''git'' sample_store))
                      (fst (getFilteredIcons_st sample_fuzzy 0 ''git'' sample_store))) \<and>
   icons_at (snd (getFilteredIcons_st sample_fuzzy 0 ''git'' sample_store)) 0 = sample_icons \<and>
   fst (getFilteredIcons_st sample_fuzzy 0 ''git'' sample_store) \<noteq> 0"
proof -
  have h: "0 < next_ref (icon_arrays sample_store)"
    by (simp add: sample_store_def)
  have c: "icons_at sample_store 0 = sample_icons"
    by (simp add: icons_at_def sample_store_def)
  have d: "distinct (icons_at sample_store 0)"
    unfolding c by (simp add: sample_icons_def sample_icon_def)
  from h d c getFilteredIcons_st_frame [OF h, of sample_fuzzy "''git''"]
  show ?thesis by simp
qed

end
